theory Spec2Isabelle
  imports Main "HOL-Library.Word"
begin

section \<open>Errors\<close>

text \<open>
  A Go \<^verbatim>\<open>error\<close> value. \<open>errorString\<close> is what \<^verbatim>\<open>errors.New\<close> builds; the other
  constructors are the errors of the standard library packages the client calls
  (\<^verbatim>\<open>net/url\<close>, \<^verbatim>\<open>net/http\<close>, \<^verbatim>\<open>io\<close>, \<^verbatim>\<open>encoding/json\<close>). A \<^verbatim>\<open>nil\<close> error is
  \<open>None\<close> of type \<open>error option\<close>.
\<close>

datatype error =
    errorString string
  | url_Error string
  | net_Error string
  | io_Error string
  | json_SyntaxError string
  | json_UnmarshalTypeError string

section \<open>The status interpreter\<close>

text \<open>
  \<^verbatim>\<open>func HandleError(status int) error\<close>: a \<^verbatim>\<open>switch\<close> on the status code. The cases are
  tried in the order of the source; the \<^verbatim>\<open>default\<close> branch tests the range 21100..21199.
  Go's \<^verbatim>\<open>int\<close> is modelled by \<open>int\<close>: the function only compares its argument with
  constants, so no arithmetic can overflow.
\<close>

definition HandleError :: "int \<Rightarrow> error option" where
  "HandleError status =
     (if status = 0 then None
      else Some (errorString
        (if status = 21000 then
           ''The App Store could not read the JSON object you provided.''
         else if status = 21002 then
           ''The data in the receipt-data property was malformed or missing.''
         else if status = 21003 then
           ''The receipt could not be authenticated.''
         else if status = 21004 then
           ''The shared secret you provided does not match the shared secret on file for your account.''
         else if status = 21005 then
           ''The receipt server is not currently available.''
         else if status = 21007 then
           ''This receipt is from the test environment, but it was sent to the production environment for verification. Send it to the test environment instead.''
         else if status = 21008 then
           ''This receipt is from the production environment, but it was sent to the test environment for verification. Send it to the production environment instead.''
         else if status = 21010 then
           ''This receipt could not be authorized. Treat this the same as if a purchase was never made.''
         else if status \<ge> 21100 \<and> status \<le> 21199 then
           ''Internal data access error.''
         else
           ''An unknown error occurred'')))"

section \<open>The client\<close>

text \<open>
  \<^verbatim>\<open>time.Duration\<close> is an \<^verbatim>\<open>int64\<close> count of nanoseconds; \<^verbatim>\<open>time.Second\<close> is
  \<open>1000000000\<close>.
\<close>

type_synonym Duration = "64 word"

definition Second :: Duration where
  "Second = 1000000000"

text \<open>
  \<^verbatim>\<open>http.Client\<close>, reduced to the one field the package sets. The client holds it behind
  a pointer; the model holds the value the pointer refers to.
\<close>

record http_Client =
  Timeout :: Duration

record Client =
  ProductionURL :: string
  SandboxURL :: string
  httpCli :: http_Client
  IsProduct :: bool

text \<open>
  The package-level constants. \<open>ProductionURL\<close> and \<open>SandboxURL\<close> name the fields of
  \<open>Client\<close> above, so the constants carry a suffix.
\<close>

definition SandboxURL_const :: string where
  "SandboxURL_const = ''https://sandbox.itunes.apple.com/verifyReceipt''"

definition ProductionURL_const :: string where
  "ProductionURL_const = ''https://buy.itunes.apple.com/verifyReceipt''"

definition ContentType :: string where
  "ContentType = ''application/json; charset=utf-8''"

definition New :: "bool \<Rightarrow> Client" where
  "New isProduct =
     \<lparr> ProductionURL = ProductionURL_const,
       SandboxURL = SandboxURL_const,
       httpCli = \<lparr> Timeout = 10 * Second \<rparr>,
       IsProduct = isProduct \<rparr>"

definition NewWithClient :: "http_Client \<Rightarrow> bool \<Rightarrow> Client" where
  "NewWithClient client isProduct =
     \<lparr> ProductionURL = ProductionURL_const,
       SandboxURL = SandboxURL_const,
       httpCli = client,
       IsProduct = isProduct \<rparr>"

section \<open>Requests, responses and the library\<close>

text \<open>
  \<^verbatim>\<open>IAPRequest\<close> and \<^verbatim>\<open>StatusResponse\<close> of \<^verbatim>\<open>model.go\<close>.
\<close>

record IAPRequest =
  ReceiptData :: string
  Password :: string
  ExcludeOldTransactions :: bool

record StatusResponse =
  Status :: int

text \<open>
  An \<^verbatim>\<open>http.Request\<close> as far as the client fills it: method, URL, headers, context and
  body. The context is opaque to the client, so its type is a parameter; \<open>None\<close> is the
  background context \<^verbatim>\<open>http.NewRequest\<close> starts with. The body is the content of the
  \<^verbatim>\<open>bytes.Buffer\<close> handed to \<^verbatim>\<open>http.NewRequest\<close>.
\<close>

record 'ctx Request =
  Method :: string
  URL :: string
  Header :: "string \<rightharpoonup> string list"
  Ctx :: "'ctx option"
  body :: string

text \<open>
  A response body is a stream (\<^verbatim>\<open>io.ReadCloser\<close>): the bytes it delivers and the error,
  if any, with which reading stops after them. \<^verbatim>\<open>ioutil.ReadAll\<close> returns both.
  \<^verbatim>\<open>Verify\<close> never looks at the HTTP status code of a response.
\<close>

record ReadCloser =
  data :: string
  readErr :: "error option"

record Response =
  StatusCode :: int
  Body :: ReadCloser

definition ReadAll :: "ReadCloser \<Rightarrow> string \<times> error option" where
  "ReadAll r = (data r, readErr r)"

text \<open>
  The standard library and the network, as far as \<^verbatim>\<open>Verify\<close> calls them. They are not
  code of this package, so they are parameters, and every theorem about \<open>Verify\<close> holds
  for any behaviour of theirs:
  \<^item> \<open>url_Parse\<close>: the error of \<^verbatim>\<open>url.Parse\<close>, the only way \<^verbatim>\<open>http.NewRequest\<close> can fail
    for the method \<^verbatim>\<open>"POST"\<close>;
  \<^item> \<open>Encode\<close>: \<^verbatim>\<open>json.NewEncoder(b).Encode(reqBody)\<close>, the bytes it leaves in the buffer \<^verbatim>\<open>b\<close>
    and the error it returns;
  \<^item> \<open>Do\<close>: \<^verbatim>\<open>(*http.Client).Do\<close>, the answer of the network to a request, which may
    depend on the HTTP client and on the requests sent before;
  \<^item> \<open>Unmarshal\<close>: \<^verbatim>\<open>json.Unmarshal(buf, &result)\<close> for the caller's target, returning the
    error and the target as the decoder leaves it (it may have written to the target
    before it fails);
  \<^item> \<open>Unmarshal_StatusResponse\<close>: \<^verbatim>\<open>json.Unmarshal(buf, &r)\<close> for \<^verbatim>\<open>r StatusResponse\<close>;
  \<^item> \<open>Decode\<close>: \<^verbatim>\<open>json.NewDecoder(resp.Body).Decode(result)\<close>, which reads the first
    JSON value of the stream.

  The caller's \<^verbatim>\<open>result interface{}\<close> holds a non-nil pointer to a value of a type \<open>'r\<close>
  of the caller's choice, distinct from the client, which is how the package is meant to be
  called; the decoders then write through that pointer, and the model passes the value
  pointed to.
\<close>

record ('r, 'ctx) lib =
  url_Parse :: "string \<Rightarrow> error option"
  Encode :: "IAPRequest \<Rightarrow> string \<times> error option"
  Do :: "http_Client \<Rightarrow> 'ctx Request list \<Rightarrow> 'ctx Request \<Rightarrow> error + Response"
  Unmarshal :: "string \<Rightarrow> 'r \<Rightarrow> error option \<times> 'r"
  Unmarshal_StatusResponse :: "string \<Rightarrow> StatusResponse \<Rightarrow> error option \<times> StatusResponse"
  Decode :: "ReadCloser \<Rightarrow> 'r \<Rightarrow> error option \<times> 'r"

text \<open>
  What a call of \<^verbatim>\<open>Verify\<close> can change: the client it is called on (through the pointer
  receiver), the value behind the caller's \<^verbatim>\<open>result\<close>, and the network, of which the model
  records the requests handed to \<^verbatim>\<open>Do\<close>, oldest first.
\<close>

record ('r, 'ctx) state =
  client :: Client
  result :: 'r
  sent :: "'ctx Request list"

text \<open>
  \<^verbatim>\<open>http.NewRequest(method, url, b)\<close>: it fails when the URL does not parse; otherwise the
  request has no header yet and the background context.
\<close>

definition NewRequest ::
  "('r, 'ctx) lib \<Rightarrow> string \<Rightarrow> string \<Rightarrow> string \<Rightarrow> error + 'ctx Request" where
  "NewRequest L method url b =
     (case url_Parse L url of
        Some err \<Rightarrow> Inl err
      | None \<Rightarrow> Inr \<lparr> Method = method, URL = url, Header = Map.empty, Ctx = None, body = b \<rparr>)"

definition Header_Set :: "'ctx Request \<Rightarrow> string \<Rightarrow> string \<Rightarrow> 'ctx Request" where
  "Header_Set req key v = req \<lparr> Header := (Header req)(key \<mapsto> [v]) \<rparr>"

definition WithContext :: "'ctx Request \<Rightarrow> 'ctx \<Rightarrow> 'ctx Request" where
  "WithContext req ctx = req \<lparr> Ctx := Some ctx \<rparr>"

text \<open>\<^verbatim>\<open>c.httpCli.Do(req)\<close>: the request is handed to the network and recorded.\<close>

definition httpCli_Do ::
  "('r, 'ctx) lib \<Rightarrow> 'ctx Request \<Rightarrow> ('r, 'ctx) state
     \<Rightarrow> (error + Response) \<times> ('r, 'ctx) state" where
  "httpCli_Do L req s =
     (Do L (httpCli (client s)) (sent s) req, s \<lparr> sent := sent s @ [req] \<rparr>)"

section \<open>Verify\<close>

text \<open>
  \<^verbatim>\<open>func (c *Client) parseResponse(resp, result, ctx, reqBody) error\<close>. Each
  \<^verbatim>\<open>if err != nil { return err }\<close> of the source is a branch that returns \<open>Some err\<close>. The
  deferred \<^verbatim>\<open>resp.Body.Close()\<close> releases the connection and changes nothing the model
  records. The source calls \<^verbatim>\<open>Encode\<close> as a statement, so the error it returns is dropped:
  \<open>(b, _)\<close> keeps the buffer only.
\<close>

definition parseResponse ::
  "('r, 'ctx) lib \<Rightarrow> Response \<Rightarrow> 'ctx \<Rightarrow> IAPRequest \<Rightarrow> ('r, 'ctx) state
     \<Rightarrow> error option \<times> ('r, 'ctx) state" where
  "parseResponse L resp ctx reqBody s =
     (case ReadAll (Body resp) of
        (buf, Some err) \<Rightarrow> (Some err, s)
      | (buf, None) \<Rightarrow>
          (case Unmarshal L buf (result s) of
             (Some err, res) \<Rightarrow> (Some err, s \<lparr> result := res \<rparr>)
           | (None, res) \<Rightarrow>
               (let s1 = s \<lparr> result := res \<rparr> in
                case Unmarshal_StatusResponse L buf \<lparr> Status = 0 \<rparr> of
                  (Some err, r) \<Rightarrow> (Some err, s1)
                | (None, r) \<Rightarrow>
                    if IsProduct (client s1) = False \<and> Status r = 21007 then
                      (let (b, _) = Encode L reqBody in
                       case NewRequest L ''POST'' (SandboxURL (client s1)) b of
                         Inl err \<Rightarrow> (Some err, s1)
                       | Inr req \<Rightarrow>
                           (let req = Header_Set req ''Content-Type'' ContentType;
                                req = WithContext req ctx;
                                (r2, s2) = httpCli_Do L req s1
                            in case r2 of
                                 Inl err \<Rightarrow> (Some err, s2)
                               | Inr resp2 \<Rightarrow>
                                   (let (err, res2) = Decode L (Body resp2) (result s2)
                                    in (err, s2 \<lparr> result := res2 \<rparr>))))
                    else (None, s1))))"

text \<open>\<^verbatim>\<open>func (c *Client) Verify(ctx, reqBody, result) error\<close>.\<close>

definition Verify ::
  "('r, 'ctx) lib \<Rightarrow> 'ctx \<Rightarrow> IAPRequest \<Rightarrow> ('r, 'ctx) state
     \<Rightarrow> error option \<times> ('r, 'ctx) state" where
  "Verify L ctx reqBody s =
     (let (b, _) = Encode L reqBody in
      case NewRequest L ''POST'' (ProductionURL (client s)) b of
        Inl err \<Rightarrow> (Some err, s)
      | Inr req \<Rightarrow>
          (let req = Header_Set req ''Content-Type'' ContentType;
               req = WithContext req ctx;
               (r, s1) = httpCli_Do L req s
           in case r of
                Inl err \<Rightarrow> (Some err, s1)
              | Inr resp \<Rightarrow> parseResponse L resp ctx reqBody s1))"

section \<open>A model of the JSON encoder and decoder\<close>

text \<open>
  The theorems about \<open>Verify\<close> hold for every encoder and decoder. What a decoder does to
  the fields of a target, and the examples, need one: this section models how
  \<^verbatim>\<open>encoding/json\<close> writes an \<^verbatim>\<open>IAPRequest\<close> and how it stores a parsed JSON value into a
  target. Scanning bytes into a JSON value stays a parameter; a number is kept as its
  literal.
\<close>

datatype json =
    JNull
  | JBool bool
  | JNumber string
  | JString string
  | JArray "json list"
  | JObject "(string \<times> json) list"

text \<open>
  The encoder on an \<^verbatim>\<open>IAPRequest\<close>, given how it writes a Go string as a JSON string. The
  fields are written in the order of the struct, \<^verbatim>\<open>password\<close> is left out when empty
  (\<^verbatim>\<open>omitempty\<close>), and \<^verbatim>\<open>Encode\<close> ends the value with a newline. A struct of two strings and
  a bool has no value this encoder rejects, and a write to a \<^verbatim>\<open>bytes.Buffer\<close> returns no
  error, so the error is \<^verbatim>\<open>nil\<close>.
\<close>

definition json_Encode :: "(string \<Rightarrow> string) \<Rightarrow> IAPRequest \<Rightarrow> string \<times> error option" where
  \<open>json_Encode quote reqBody =
     (''{"receipt-data":'' @ quote (ReceiptData reqBody)
        @ (if Password reqBody = [] then []
           else '',"password":'' @ quote (Password reqBody))
        @ '',"exclude-old-transactions":''
        @ (if ExcludeOldTransactions reqBody then ''true'' else ''false'')
        @ ''}\<newline>'',
      None)\<close>

text \<open>
  What storing one JSON value does besides writing: nothing more (\<open>Stored\<close>); or it records
  an \<^verbatim>\<open>UnmarshalTypeError\<close> and decoding goes on, the first error recorded being returned
  at the end (\<open>Saved\<close>); or it stops the whole decoding with an error, as a failing
  \<^verbatim>\<open>UnmarshalJSON\<close> method does (\<open>Abort\<close>).
\<close>

datatype outcome = Stored | Saved error | Abort error

definition error_of :: "outcome \<Rightarrow> error option" where
  "error_of out = (case out of Stored \<Rightarrow> None | Saved e \<Rightarrow> Some e | Abort e \<Rightarrow> Some e)"

text \<open>
  The outcome of two steps that both ran: an error that stops the decoding is the one
  returned; otherwise the first error recorded.
\<close>

definition both :: "outcome \<Rightarrow> outcome \<Rightarrow> outcome" where
  "both o1 o2 =
     (case o2 of
        Abort e \<Rightarrow> Abort e
      | _ \<Rightarrow> (case o1 of Saved e \<Rightarrow> Saved e | _ \<Rightarrow> o2))"

text \<open>
  \<^verbatim>\<open>strconv.ParseInt(s, 10, 64)\<close>, as the decoder calls it on a number literal: an optional
  sign and at least one decimal digit, within the range of \<^verbatim>\<open>int64\<close>.
\<close>

fun digits :: "int \<Rightarrow> string \<Rightarrow> int option" where
  "digits acc [] = Some acc"
| "digits acc (c # cs) =
     (if 48 \<le> (of_char c :: nat) \<and> (of_char c :: nat) \<le> 57
      then digits (10 * acc + (of_char c - 48)) cs
      else None)"

definition ParseInt :: "string \<Rightarrow> int option" where
  "ParseInt s =
     (let (neg, ds) =
            (case s of
               [] \<Rightarrow> (False, [])
             | c # cs \<Rightarrow>
                 if c = CHR ''-'' then (True, cs)
                 else if c = CHR ''+'' then (False, cs)
                 else (False, s))
      in if ds = [] then None
         else case digits 0 ds of
                None \<Rightarrow> None
              | Some n \<Rightarrow>
                  (let v = (if neg then - n else n)
                   in if - (2 ^ 63) \<le> v \<and> v < 2 ^ 63 then Some v else None))"

text \<open>
  Storing a JSON value into a Go \<^verbatim>\<open>int\<close>. \<^verbatim>\<open>null\<close> leaves it as it is; a value of another
  kind, or a number that is no integer of the range, leaves it as it is and records an
  \<^verbatim>\<open>UnmarshalTypeError\<close>.
\<close>

fun store_int :: "json \<Rightarrow> int \<Rightarrow> outcome \<times> int" where
  "store_int JNull k = (Stored, k)"
| "store_int (JBool b) k = (Saved (json_UnmarshalTypeError ''bool''), k)"
| "store_int (JNumber n) k =
     (case ParseInt n of
        Some i \<Rightarrow> (Stored, i)
      | None \<Rightarrow> (Saved (json_UnmarshalTypeError (''number '' @ n)), k))"
| "store_int (JString x) k = (Saved (json_UnmarshalTypeError ''string''), k)"
| "store_int (JArray xs) k = (Saved (json_UnmarshalTypeError ''array''), k)"
| "store_int (JObject ms) k = (Saved (json_UnmarshalTypeError ''object''), k)"

text \<open>
  Values of the Go types \<^verbatim>\<open>int\<close>, \<^verbatim>\<open>string\<close> and \<^verbatim>\<open>bool\<close>, the field types of the examples,
  and how a JSON value is stored into one.
\<close>

datatype govalue =
    VInt int
  | VString string
  | VBool bool

fun store_govalue :: "json \<Rightarrow> govalue \<Rightarrow> outcome \<times> govalue" where
  "store_govalue JNull v = (Stored, v)"
| "store_govalue (JBool b) v =
     (case v of
        VBool _ \<Rightarrow> (Stored, VBool b)
      | _ \<Rightarrow> (Saved (json_UnmarshalTypeError ''bool''), v))"
| "store_govalue (JNumber n) v =
     (case v of
        VInt k \<Rightarrow> (let (out, k') = store_int (JNumber n) k in (out, VInt k'))
      | _ \<Rightarrow> (Saved (json_UnmarshalTypeError ''number''), v))"
| "store_govalue (JString x) v =
     (case v of
        VString _ \<Rightarrow> (Stored, VString x)
      | _ \<Rightarrow> (Saved (json_UnmarshalTypeError ''string''), v))"
| "store_govalue (JArray xs) v = (Saved (json_UnmarshalTypeError ''array''), v)"
| "store_govalue (JObject ms) v = (Saved (json_UnmarshalTypeError ''object''), v)"

fun index_where :: "('a \<Rightarrow> bool) \<Rightarrow> 'a list \<Rightarrow> nat option" where
  "index_where P [] = None"
| "index_where P (x # xs) =
     (if P x then Some 0 else map_option Suc (index_where P xs))"

text \<open>
  A struct is the list of the fields the decoder sees (the exported ones, those of embedded
  structs included), each under its JSON name, the name in the field's tag. The type of a
  field's value is a parameter \<open>'v\<close>: a field may be of any Go type.

  The field an object key addresses: the field of exactly that name if there is one,
  otherwise the first field whose name equals the key under \<^verbatim>\<open>EqualFold\<close> (Unicode case
  folding, a parameter here).
\<close>

definition find_field ::
  "(string \<Rightarrow> string \<Rightarrow> bool) \<Rightarrow> string \<Rightarrow> (string \<times> 'v) list \<Rightarrow> nat option" where
  "find_field eqFold key fs =
     (case index_where (\<lambda>f. fst f = key) fs of
        Some i \<Rightarrow> Some i
      | None \<Rightarrow> index_where (\<lambda>f. eqFold (fst f) key) fs)"

text \<open>
  Storing the members of a JSON object into a struct, given how a value is stored into a
  field (\<open>store_value\<close>, by the name of the field; a parameter, so that the fields may be
  slices, nested structs, integers of any width or types with their own \<^verbatim>\<open>UnmarshalJSON\<close>).
  The members are stored in their order into the fields they address; a key that
  addresses no field is skipped. After a recorded type error the decoder goes on with the
  remaining members; an error that stops the decoding leaves them unread.
\<close>

fun store_members ::
  "(string \<Rightarrow> json \<Rightarrow> 'v \<Rightarrow> outcome \<times> 'v) \<Rightarrow> (string \<Rightarrow> string \<Rightarrow> bool)
     \<Rightarrow> (string \<times> json) list \<Rightarrow> (string \<times> 'v) list \<Rightarrow> outcome \<times> (string \<times> 'v) list" where
  "store_members store_value eqFold [] fs = (Stored, fs)"
| "store_members store_value eqFold ((key, j) # ms) fs =
     (case find_field eqFold key fs of
        None \<Rightarrow> store_members store_value eqFold ms fs
      | Some i \<Rightarrow>
          (let (o1, v) = store_value (fst (fs ! i)) j (snd (fs ! i));
               fs1 = fs[i := (fst (fs ! i), v)]
           in case o1 of
                Abort e \<Rightarrow> (Abort e, fs1)
              | _ \<Rightarrow>
                  (let (o2, fs2) = store_members store_value eqFold ms fs1
                   in (both o1 o2, fs2))))"

text \<open>
  Storing a JSON value into a struct: the members of an object as above; \<^verbatim>\<open>null\<close> leaves the
  struct as it is; any other value leaves it as it is and records an
  \<^verbatim>\<open>UnmarshalTypeError\<close>.
\<close>

fun store_struct ::
  "(string \<Rightarrow> json \<Rightarrow> 'v \<Rightarrow> outcome \<times> 'v) \<Rightarrow> (string \<Rightarrow> string \<Rightarrow> bool)
     \<Rightarrow> json \<Rightarrow> (string \<times> 'v) list \<Rightarrow> outcome \<times> (string \<times> 'v) list" where
  "store_struct store_value eqFold JNull fs = (Stored, fs)"
| "store_struct store_value eqFold (JBool b) fs = (Saved (json_UnmarshalTypeError ''bool''), fs)"
| "store_struct store_value eqFold (JNumber n) fs =
     (Saved (json_UnmarshalTypeError ''number''), fs)"
| "store_struct store_value eqFold (JString x) fs =
     (Saved (json_UnmarshalTypeError ''string''), fs)"
| "store_struct store_value eqFold (JArray xs) fs =
     (Saved (json_UnmarshalTypeError ''array''), fs)"
| "store_struct store_value eqFold (JObject ms) fs = store_members store_value eqFold ms fs"

text \<open>
  The value behind the caller's pointer, for the two kinds of target the properties
  below are about:
  \<^item> \<open>VStruct\<close>: a struct, as the list of its fields;
  \<^item> \<open>VInterface\<close>: an empty interface (the caller passed a \<^verbatim>\<open>*interface{}\<close>) that is \<^verbatim>\<open>nil\<close> or
    holds a value the decoder built. Its content has a type \<open>'i\<close> of its own. The decoder
    does not write into such a content: it builds a new one from the JSON value
    (a \<^verbatim>\<open>map[string]interface{}\<close> for an object, \<^verbatim>\<open>nil\<close> for \<^verbatim>\<open>null\<close>) and puts it in place of
    the old.
\<close>

datatype ('v, 'i) target =
    VStruct "(string \<times> 'v) list"
  | VInterface 'i

text \<open>
  The rest of \<^verbatim>\<open>encoding/json\<close>, as parameters: \<open>parse\<close> is the check and scan of a whole
  buffer by \<^verbatim>\<open>json.Unmarshal\<close> (an error if the bytes are not one JSON value), \<open>next_value\<close>
  the read of the first JSON value of a stream by a \<^verbatim>\<open>json.Decoder\<close>, which leaves what
  follows that value unread, \<open>EqualFold\<close> the comparison of a key with a field name,
  \<open>store_value\<close> the storing of a value into a field, and \<open>to_interface\<close> the Go value built
  for a JSON value that is stored into an empty interface. A buffer or stream that does
  not scan is an error before anything is stored.
\<close>

record ('v, 'i) jsonlib =
  parse :: "string \<Rightarrow> error + json"
  next_value :: "ReadCloser \<Rightarrow> error + json"
  EqualFold :: "string \<Rightarrow> string \<Rightarrow> bool"
  store_value :: "string \<Rightarrow> json \<Rightarrow> 'v \<Rightarrow> outcome \<times> 'v"
  to_interface :: "json \<Rightarrow> outcome \<times> 'i"

fun store :: "('v, 'i) jsonlib \<Rightarrow> json \<Rightarrow> ('v, 'i) target \<Rightarrow> outcome \<times> ('v, 'i) target" where
  "store J j (VStruct fs) =
     (let (out, fs') = store_struct (store_value J) (EqualFold J) j fs in (out, VStruct fs'))"
| "store J j (VInterface c) =
     (let (out, c') = to_interface J j in (out, VInterface c'))"

definition json_Unmarshal ::
  "('v, 'i) jsonlib \<Rightarrow> string \<Rightarrow> ('v, 'i) target \<Rightarrow> error option \<times> ('v, 'i) target" where
  "json_Unmarshal J buf t =
     (case parse J buf of
        Inl err \<Rightarrow> (Some err, t)
      | Inr j \<Rightarrow> (let (out, t') = store J j t in (error_of out, t')))"

definition json_Decode ::
  "('v, 'i) jsonlib \<Rightarrow> ReadCloser \<Rightarrow> ('v, 'i) target \<Rightarrow> error option \<times> ('v, 'i) target" where
  "json_Decode J rc t =
     (case next_value J rc of
        Inl err \<Rightarrow> (Some err, t)
      | Inr j \<Rightarrow> (let (out, t') = store J j t in (error_of out, t')))"

text \<open>
  \<^verbatim>\<open>StatusResponse\<close> is the struct with the one field \<^verbatim>\<open>Status int `json:"status"`\<close>.
\<close>

definition json_Unmarshal_StatusResponse ::
  "('v, 'i) jsonlib \<Rightarrow> string \<Rightarrow> StatusResponse \<Rightarrow> error option \<times> StatusResponse" where
  "json_Unmarshal_StatusResponse J buf r =
     (case parse J buf of
        Inl err \<Rightarrow> (Some err, r)
      | Inr j \<Rightarrow>
          (let (out, fs) = store_struct (\<lambda>name. store_int) (EqualFold J) j
                             [(''status'', Status r)]
           in (error_of out, \<lparr> Status = snd (fs ! 0) \<rparr>)))"

text \<open>
  The library with this encoder and decoder, for any scanner, URL parser, string encoder
  and network.
\<close>

definition golib ::
  "('v, 'i) jsonlib \<Rightarrow> (string \<Rightarrow> error option) \<Rightarrow> (string \<Rightarrow> string)
     \<Rightarrow> (http_Client \<Rightarrow> 'ctx Request list \<Rightarrow> 'ctx Request \<Rightarrow> error + Response)
     \<Rightarrow> (('v, 'i) target, 'ctx) lib" where
  "golib J parse_url q do =
     \<lparr> url_Parse = parse_url, Encode = json_Encode q, Do = do,
       Unmarshal = json_Unmarshal J,
       Unmarshal_StatusResponse = json_Unmarshal_StatusResponse J,
       Decode = json_Decode J \<rparr>"

text \<open>
  Whether some member of an object addresses field \<open>i\<close> of a struct: the field is present
  in the JSON body.
\<close>

definition addresses ::
  "(string \<Rightarrow> string \<Rightarrow> bool) \<Rightarrow> (string \<times> json) list \<Rightarrow> (string \<times> 'v) list \<Rightarrow> nat \<Rightarrow> bool" where
  "addresses eqFold ms fs i = list_ex (\<lambda>m. find_field eqFold (fst m) fs = Some i) ms"

text \<open>The members of a scanned body: those of the object, none for any other outcome.\<close>

definition members_of :: "error + json \<Rightarrow> (string \<times> json) list" where
  "members_of x = (case x of Inr (JObject ms) \<Rightarrow> ms | _ \<Rightarrow> [])"

section \<open>An example environment\<close>

text \<open>
  A concrete library for the examples: a server that answers every request to the
  production URL with one body and every request to the sandbox URL with another; the
  scanner on bodies that begin with one of the JSON values the examples use (any other
  body is reported as truncated); ASCII case folding; the rule of \<^verbatim>\<open>url.Parse\<close> that rejects
  control characters; strings written between double quotes, which is what the encoder
  does for letters and digits; and the content of an empty interface given by the JSON
  value it was built from.
\<close>

definition example_values :: "(string \<times> json) list" where
  \<open>example_values =
     [(''{"status":21007}'',
         JObject [(''status'', JNumber ''21007'')]),
      (''{"status":21007,"latest_receipt":"r1"}'',
         JObject [(''status'', JNumber ''21007''), (''latest_receipt'', JString ''r1'')]),
      (''{"status":21007,"environment":5}'',
         JObject [(''status'', JNumber ''21007''), (''environment'', JNumber ''5'')]),
      (''{"status":21002}'',
         JObject [(''status'', JNumber ''21002'')]),
      (''{"status":"ok"}'',
         JObject [(''status'', JString ''ok'')]),
      (''{"status":0,"environment":"Sandbox"}'',
         JObject [(''status'', JNumber ''0''), (''environment'', JString ''Sandbox'')])]\<close>

fun starts_with :: "string \<Rightarrow> string \<Rightarrow> string option" where
  "starts_with [] ys = Some ys"
| "starts_with (x # xs) [] = None"
| "starts_with (x # xs) (y # ys) = (if x = y then starts_with xs ys else None)"

text \<open>The JSON value a body begins with, and the bytes after it.\<close>

fun first_value :: "(string \<times> json) list \<Rightarrow> string \<Rightarrow> (json \<times> string) option" where
  "first_value [] buf = None"
| "first_value ((lit, j) # table) buf =
     (case starts_with lit buf of
        Some rest \<Rightarrow> Some (j, rest)
      | None \<Rightarrow> first_value table buf)"

definition is_space :: "char \<Rightarrow> bool" where
  "is_space c \<longleftrightarrow> c = CHR '' '' \<or> c = CHR 0x09 \<or> c = CHR 0x0A \<or> c = CHR 0x0D"

text \<open>
  A whole buffer is one JSON value when only white space follows the value; anything else
  after it is a syntax error.
\<close>

definition example_parse :: "string \<Rightarrow> error + json" where
  "example_parse buf =
     (case first_value example_values buf of
        None \<Rightarrow> Inl (json_SyntaxError ''unexpected end of JSON input'')
      | Some (j, rest) \<Rightarrow>
          (case dropWhile is_space rest of
             [] \<Rightarrow> Inr j
           | c # cs \<Rightarrow>
               Inl (json_SyntaxError
                 (''invalid character '' @ [CHR 0x27, c, CHR 0x27] @ '' after top-level value''))))"

text \<open>A stream decoder returns the first value and does not look at what follows it.\<close>

definition example_next_value :: "ReadCloser \<Rightarrow> error + json" where
  "example_next_value rc =
     (case first_value example_values (data rc) of
        Some (j, rest) \<Rightarrow> Inr j
      | None \<Rightarrow> Inl (case readErr rc of Some e \<Rightarrow> e | None \<Rightarrow> io_Error ''unexpected EOF''))"

definition ascii_lower :: "string \<Rightarrow> string" where
  "ascii_lower x =
     map (\<lambda>c. if 65 \<le> (of_char c :: nat) \<and> (of_char c :: nat) \<le> 90
               then char_of (of_char c + 32 :: nat) else c) x"

definition example_json :: "(govalue, json option) jsonlib" where
  "example_json =
     \<lparr> parse = example_parse,
       next_value = example_next_value,
       EqualFold = (\<lambda>a b. ascii_lower a = ascii_lower b),
       store_value = (\<lambda>name. store_govalue),
       to_interface = (\<lambda>j. (Stored, case j of JNull \<Rightarrow> None | _ \<Rightarrow> Some j)) \<rparr>"

definition example_Do ::
  "string \<Rightarrow> string \<Rightarrow> http_Client \<Rightarrow> unit Request list \<Rightarrow> unit Request \<Rightarrow> error + Response" where
  "example_Do pbody sbody cli history req =
     (if URL req = ProductionURL_const then
        Inr \<lparr> StatusCode = 200, Body = \<lparr> data = pbody, readErr = None \<rparr> \<rparr>
      else if URL req = SandboxURL_const then
        Inr \<lparr> StatusCode = 200, Body = \<lparr> data = sbody, readErr = None \<rparr> \<rparr>
      else Inl (net_Error ''no such host''))"

definition example_url_Parse :: "string \<Rightarrow> error option" where
  "example_url_Parse u =
     (if list_ex (\<lambda>c. (of_char c :: nat) < 32 \<or> (of_char c :: nat) = 127) u
      then Some (url_Error ''net/url: invalid control character in URL'')
      else None)"

definition example_lib ::
  "string \<Rightarrow> string \<Rightarrow> ((govalue, json option) target, unit) lib" where
  "example_lib pbody sbody =
     golib example_json example_url_Parse (\<lambda>x. [CHR 0x22] @ x @ [CHR 0x22])
       (example_Do pbody sbody)"


text \<open>A target of the caller's: a struct with three tagged fields, all zero.\<close>

definition example_target :: "(govalue, json option) target" where
  "example_target =
     VStruct [(''status'', VInt 0), (''environment'', VString []),
              (''latest_receipt'', VString [])]"

definition example_request :: IAPRequest where
  "example_request =
     \<lparr> ReceiptData = ''abc123'', Password = [], ExcludeOldTransactions = False \<rparr>"

text \<open>The state before a call on a client built by \<open>New\<close>.\<close>

definition example_state :: "bool \<Rightarrow> ((govalue, json option) target, unit) state" where
  "example_state isProduct =
     \<lparr> client = New isProduct, result = example_target, sent = [] \<rparr>"

section \<open>Properties\<close>

subsection \<open>What the decoder leaves alone\<close>












subsection \<open>Evaluating the examples\<close>

lemmas Verify_defs =
  Verify_def parseResponse_def httpCli_Do_def NewRequest_def Header_Set_def WithContext_def
  Let_def split_def

lemmas example_defs =
  example_lib_def golib_def example_Do_def example_json_def example_parse_def
  example_next_value_def example_values_def is_space_def
  example_url_Parse_def example_target_def example_request_def example_state_def
  ascii_lower_def New_def ProductionURL_const_def SandboxURL_const_def
  json_Unmarshal_def json_Decode_def json_Unmarshal_StatusResponse_def error_of_def both_def
  find_field_def ParseInt_def addresses_def members_of_def ReadAll_def json_Encode_def
  ContentType_def

subsection \<open>The status interpreter and the constructor\<close>

text \<open>
  Claim C3. For every status code, \<open>HandleError\<close> returns no error exactly when the code
  is 0; it returns one fixed message for each of 21000, 21002, 21003, 21004, 21005, 21007,
  21008 and 21010; it returns "Internal data access error." for every code from 21100 to
  21199; and it returns "An unknown error occurred" for every other code that is not 0.
\<close>

theorem HandleError_table:
  "(HandleError status = None \<longleftrightarrow> status = 0)
   \<and> HandleError 21000 = Some (errorString
        ''The App Store could not read the JSON object you provided.'')
   \<and> HandleError 21002 = Some (errorString
        ''The data in the receipt-data property was malformed or missing.'')
   \<and> HandleError 21003 = Some (errorString
        ''The receipt could not be authenticated.'')
   \<and> HandleError 21004 = Some (errorString
        ''The shared secret you provided does not match the shared secret on file for your account.'')
   \<and> HandleError 21005 = Some (errorString
        ''The receipt server is not currently available.'')
   \<and> HandleError 21007 = Some (errorString
        ''This receipt is from the test environment, but it was sent to the production environment for verification. Send it to the test environment instead.'')
   \<and> HandleError 21008 = Some (errorString
        ''This receipt is from the production environment, but it was sent to the test environment for verification. Send it to the production environment instead.'')
   \<and> HandleError 21010 = Some (errorString
        ''This receipt could not be authorized. Treat this the same as if a purchase was never made.'')
   \<and> (21100 \<le> status \<and> status \<le> 21199 \<longrightarrow>
        HandleError status = Some (errorString ''Internal data access error.''))
   \<and> (status \<noteq> 0
        \<and> status \<notin> {21000, 21002, 21003, 21004, 21005, 21007, 21008, 21010}
        \<and> \<not> (21100 \<le> status \<and> status \<le> 21199) \<longrightarrow>
        HandleError status = Some (errorString ''An unknown error occurred''))"
  by (simp add: HandleError_def)

theorem HandleError_table_witness:
  "(21100::int) \<le> 21150 \<and> (21150::int) \<le> 21199
   \<and> HandleError 21150 = Some (errorString ''Internal data access error.'')
   \<and> (21001::int) \<noteq> 0
   \<and> (21001::int) \<notin> {21000, 21002, 21003, 21004, 21005, 21007, 21008, 21010}
   \<and> \<not> ((21100::int) \<le> 21001 \<and> (21001::int) \<le> 21199)
   \<and> HandleError 21001 = Some (errorString ''An unknown error occurred'')
   \<and> HandleError 0 = None"
  using HandleError_table [of 21150] HandleError_table [of 21001] HandleError_table [of 0]
  by simp

text \<open>
  Claim C8. A client built by \<open>New\<close> has an HTTP client whose timeout is exactly ten
  seconds (10 000 000 000 nanoseconds, with no wrap-around in the 64-bit duration), and
  its production and sandbox URLs are the two App Store verification addresses.
\<close>

theorem New_defaults:
  "sint (Timeout (httpCli (New isProduct))) = 10 * 1000000000
   \<and> Timeout (httpCli (New isProduct)) = 10 * Second
   \<and> ProductionURL (New isProduct) = ''https://buy.itunes.apple.com/verifyReceipt''
   \<and> SandboxURL (New isProduct) = ''https://sandbox.itunes.apple.com/verifyReceipt''
   \<and> IsProduct (New isProduct) = isProduct"
  by (simp add: New_def Second_def ProductionURL_const_def SandboxURL_const_def)

subsection \<open>The dispatch\<close>

text \<open>
  Claim C9. \<open>Verify\<close> never changes the client it is called on: after every call, whatever
  its outcome, the client's production URL, sandbox URL, production flag and HTTP client
  are what they were before.
\<close>

theorem Verify_keeps_client:
  "client (snd (Verify L ctx reqBody s)) = client s
   \<and> ProductionURL (client (snd (Verify L ctx reqBody s))) = ProductionURL (client s)
   \<and> SandboxURL (client (snd (Verify L ctx reqBody s))) = SandboxURL (client s)
   \<and> IsProduct (client (snd (Verify L ctx reqBody s))) = IsProduct (client s)
   \<and> httpCli (client (snd (Verify L ctx reqBody s))) = httpCli (client s)"
proof -
  have "client (snd (Verify L ctx reqBody s)) = client s"
    by (simp add: Verify_defs split: sum.split option.split)
  then show ?thesis by simp
qed

text \<open>
  Claim C2. For a client with \<open>IsProduct = True\<close> and a production response whose body
  decodes to status 21007, \<open>Verify\<close> sends the production request and no other, and the
  result target holds what decoding the production body left in it; the error returned is
  that of this decoding.
\<close>

theorem production_client_no_fallback:
  assumes "IsProduct (client s)"
    and "preq = \<lparr> Method = ''POST'', URL = ProductionURL (client s),
                  Header = [''Content-Type'' \<mapsto> [ContentType]], Ctx = Some ctx,
                  body = fst (Encode L reqBody) \<rparr>"
    and "url_Parse L (ProductionURL (client s)) = None"
    and "Do L (httpCli (client s)) (sent s) preq = Inr resp"
    and "ReadAll (Body resp) = (buf, None)"
    and "Unmarshal_StatusResponse L buf \<lparr> Status = 0 \<rparr> = (None, r)"
    and "Status r = 21007"
  shows "Verify L ctx reqBody s =
           (fst (Unmarshal L buf (result s)),
            s \<lparr> result := snd (Unmarshal L buf (result s)), sent := sent s @ [preq] \<rparr>)"
  using assms by (simp add: Verify_defs split: sum.split option.split)

theorem production_client_no_fallback_witness:
  \<open>IsProduct (client (example_state True))
   \<and> Unmarshal_StatusResponse (example_lib ''{"status":21007}'' ''{"status":0,"environment":"Sandbox"}'')
        ''{"status":21007}'' \<lparr> Status = 0 \<rparr> = (None, \<lparr> Status = 21007 \<rparr>)
   \<and> Verify (example_lib ''{"status":21007}'' ''{"status":0,"environment":"Sandbox"}'') ()
        example_request (example_state True)
     = (None,
        \<lparr> client = New True,
          result = VStruct [(''status'', VInt 21007), (''environment'', VString []),
                            (''latest_receipt'', VString [])],
          sent = [\<lparr> Method = ''POST'', URL = ''https://buy.itunes.apple.com/verifyReceipt'',
                    Header = [''Content-Type'' \<mapsto> [''application/json; charset=utf-8'']],
                    Ctx = Some (),
                    body = ''{"receipt-data":"abc123","exclude-old-transactions":false}\<newline>'' \<rparr>] \<rparr>)\<close>
proof -
  let ?L = \<open>example_lib ''{"status":21007}'' ''{"status":0,"environment":"Sandbox"}''\<close>
  let ?s = "example_state True"
  have a: "IsProduct (client ?s)"
    by (simp add: example_defs)
  have b: "url_Parse ?L (ProductionURL (client ?s)) = None"
    by (simp add: example_defs)
  have c: \<open>Do ?L (httpCli (client ?s)) (sent ?s)
             \<lparr> Method = ''POST'', URL = ProductionURL (client ?s),
               Header = [''Content-Type'' \<mapsto> [ContentType]], Ctx = Some (),
               body = fst (Encode ?L example_request) \<rparr>
           = Inr \<lparr> StatusCode = 200, Body = \<lparr> data = ''{"status":21007}'', readErr = None \<rparr> \<rparr>\<close>
    by (simp add: example_defs)
  have d: \<open>ReadAll (Body \<lparr> StatusCode = 200,
                            Body = \<lparr> data = ''{"status":21007}'', readErr = None \<rparr> \<rparr>)
           = (''{"status":21007}'', None)\<close>
    by (simp add: ReadAll_def)
  have e: \<open>Unmarshal_StatusResponse ?L ''{"status":21007}'' \<lparr> Status = 0 \<rparr>
           = (None, \<lparr> Status = 21007 \<rparr>)\<close>
    by (simp add: example_defs)
  have f: "Status \<lparr> Status = 21007 \<rparr> = 21007"
    by simp
  from production_client_no_fallback [OF a refl b c d e f] a e
  show ?thesis
    by (simp add: example_defs)
qed

text \<open>
  Claim C1, as amended. For a client with \<open>IsProduct = False\<close> whose sandbox URL
  \<^verbatim>\<open>http.NewRequest\<close> accepts, and a production response whose body decodes without error
  into the result target and then into a \<open>StatusResponse\<close> with status 21007, \<open>Verify\<close>
  sends exactly one further request: a POST to the client's sandbox URL with the same
  header, context and body as the production request, the body being the serialization
  of the original \<open>IAPRequest\<close>. If that request is answered, the error returned and the
  result target are those of decoding the sandbox body into the target; if it fails, its
  error is returned and the target keeps the production decoding.
\<close>

theorem sandbox_fallback:
  assumes "IsProduct (client s) = False"
    and "preq = \<lparr> Method = ''POST'', URL = ProductionURL (client s),
                  Header = [''Content-Type'' \<mapsto> [ContentType]], Ctx = Some ctx,
                  body = fst (Encode L reqBody) \<rparr>"
    and "sreq = \<lparr> Method = ''POST'', URL = SandboxURL (client s),
                  Header = [''Content-Type'' \<mapsto> [ContentType]], Ctx = Some ctx,
                  body = fst (Encode L reqBody) \<rparr>"
    and "url_Parse L (ProductionURL (client s)) = None"
    and "url_Parse L (SandboxURL (client s)) = None"
    and "Do L (httpCli (client s)) (sent s) preq = Inr resp"
    and "ReadAll (Body resp) = (buf, None)"
    and "Unmarshal L buf (result s) = (None, res)"
    and "Unmarshal_StatusResponse L buf \<lparr> Status = 0 \<rparr> = (None, r)"
    and "Status r = 21007"
  shows "sent (snd (Verify L ctx reqBody s)) = sent s @ [preq, sreq]
       \<and> body sreq = body preq
       \<and> (\<forall>resp2. Do L (httpCli (client s)) (sent s @ [preq]) sreq = Inr resp2 \<longrightarrow>
            fst (Verify L ctx reqBody s) = fst (Decode L (Body resp2) res)
            \<and> result (snd (Verify L ctx reqBody s)) = snd (Decode L (Body resp2) res))
       \<and> (\<forall>err. Do L (httpCli (client s)) (sent s @ [preq]) sreq = Inl err \<longrightarrow>
            fst (Verify L ctx reqBody s) = Some err
            \<and> result (snd (Verify L ctx reqBody s)) = res)"
  using assms by (simp add: Verify_defs split: sum.split option.split)

theorem sandbox_fallback_witness:
  \<open>IsProduct (client (example_state False)) = False
   \<and> Unmarshal_StatusResponse (example_lib ''{"status":21007}'' ''{"status":0,"environment":"Sandbox"}'')
        ''{"status":21007}'' \<lparr> Status = 0 \<rparr> = (None, \<lparr> Status = 21007 \<rparr>)
   \<and> Verify (example_lib ''{"status":21007}'' ''{"status":0,"environment":"Sandbox"}'') ()
        example_request (example_state False)
     = (None,
        \<lparr> client = New False,
          result = VStruct [(''status'', VInt 0), (''environment'', VString ''Sandbox''),
                            (''latest_receipt'', VString [])],
          sent = [\<lparr> Method = ''POST'', URL = ''https://buy.itunes.apple.com/verifyReceipt'',
                    Header = [''Content-Type'' \<mapsto> [''application/json; charset=utf-8'']],
                    Ctx = Some (),
                    body = ''{"receipt-data":"abc123","exclude-old-transactions":false}\<newline>'' \<rparr>,
                  \<lparr> Method = ''POST'', URL = ''https://sandbox.itunes.apple.com/verifyReceipt'',
                    Header = [''Content-Type'' \<mapsto> [''application/json; charset=utf-8'']],
                    Ctx = Some (),
                    body = ''{"receipt-data":"abc123","exclude-old-transactions":false}\<newline>'' \<rparr>] \<rparr>)\<close>
proof -
  let ?L = \<open>example_lib ''{"status":21007}'' ''{"status":0,"environment":"Sandbox"}''\<close>
  let ?s = "example_state False"
  have a: "IsProduct (client ?s) = False"
    by (simp add: example_defs)
  have b: "url_Parse ?L (ProductionURL (client ?s)) = None"
    by (simp add: example_defs)
  have b': "url_Parse ?L (SandboxURL (client ?s)) = None"
    by (simp add: example_defs)
  have c: \<open>Do ?L (httpCli (client ?s)) (sent ?s)
             \<lparr> Method = ''POST'', URL = ProductionURL (client ?s),
               Header = [''Content-Type'' \<mapsto> [ContentType]], Ctx = Some (),
               body = fst (Encode ?L example_request) \<rparr>
           = Inr \<lparr> StatusCode = 200, Body = \<lparr> data = ''{"status":21007}'', readErr = None \<rparr> \<rparr>\<close>
    by (simp add: example_defs)
  have d: \<open>ReadAll (Body \<lparr> StatusCode = 200,
                            Body = \<lparr> data = ''{"status":21007}'', readErr = None \<rparr> \<rparr>)
           = (''{"status":21007}'', None)\<close>
    by (simp add: ReadAll_def)
  have e: \<open>Unmarshal ?L ''{"status":21007}'' (result ?s)
           = (None, VStruct [(''status'', VInt 21007), (''environment'', VString []),
                             (''latest_receipt'', VString [])])\<close>
    by (simp add: example_defs)
  have f: \<open>Unmarshal_StatusResponse ?L ''{"status":21007}'' \<lparr> Status = 0 \<rparr>
           = (None, \<lparr> Status = 21007 \<rparr>)\<close>
    by (simp add: example_defs)
  have g: "Status \<lparr> Status = 21007 \<rparr> = 21007"
    by simp
  from sandbox_fallback [OF a refl refl b b' c d e f g] a f
  show ?thesis
    by (simp add: example_defs Verify_defs)
qed

text \<open>
  Claim C1 as stated fails when the production body decodes to a \<open>StatusResponse\<close> with
  status 21007 but not into the result target. The client has \<open>IsProduct = False\<close>, the
  production body is \<^verbatim>\<open>{"status":21007,"environment":5}\<close> and the target has a string field
  \<^verbatim>\<open>environment\<close>: \<open>Verify\<close> returns the decoder's type error after the production request
  alone, and no request goes to the sandbox. It fails as well for a client whose sandbox
  URL has been set to one that \<^verbatim>\<open>http.NewRequest\<close> rejects: the production body
  \<^verbatim>\<open>{"status":21007}\<close> decodes into both, and again the production request is the only one.
\<close>

theorem sandbox_fallback_counterexample:
  \<open>IsProduct (client (example_state False)) = False
   \<and> Do (example_lib ''{"status":21007,"environment":5}'' ''{"status":0,"environment":"Sandbox"}'')
        (httpCli (New False)) []
        \<lparr> Method = ''POST'', URL = ''https://buy.itunes.apple.com/verifyReceipt'',
          Header = [''Content-Type'' \<mapsto> [''application/json; charset=utf-8'']],
          Ctx = Some (),
          body = ''{"receipt-data":"abc123","exclude-old-transactions":false}\<newline>'' \<rparr>
     = Inr \<lparr> StatusCode = 200,
             Body = \<lparr> data = ''{"status":21007,"environment":5}'', readErr = None \<rparr> \<rparr>
   \<and> Unmarshal_StatusResponse
        (example_lib ''{"status":21007,"environment":5}'' ''{"status":0,"environment":"Sandbox"}'')
        ''{"status":21007,"environment":5}'' \<lparr> Status = 0 \<rparr> = (None, \<lparr> Status = 21007 \<rparr>)
   \<and> Verify (example_lib ''{"status":21007,"environment":5}'' ''{"status":0,"environment":"Sandbox"}'')
        () example_request (example_state False)
     = (Some (json_UnmarshalTypeError ''number''),
        \<lparr> client = New False,
          result = VStruct [(''status'', VInt 21007), (''environment'', VString []),
                            (''latest_receipt'', VString [])],
          sent = [\<lparr> Method = ''POST'', URL = ''https://buy.itunes.apple.com/verifyReceipt'',
                    Header = [''Content-Type'' \<mapsto> [''application/json; charset=utf-8'']],
                    Ctx = Some (),
                    body = ''{"receipt-data":"abc123","exclude-old-transactions":false}\<newline>'' \<rparr>] \<rparr>)
   \<and> IsProduct ((New False) \<lparr> SandboxURL := ''https://sandbox.itunes.apple.com/\<newline>verifyReceipt'' \<rparr>)
       = False
   \<and> Unmarshal_StatusResponse
        (example_lib ''{"status":21007}'' ''{"status":0,"environment":"Sandbox"}'')
        ''{"status":21007}'' \<lparr> Status = 0 \<rparr> = (None, \<lparr> Status = 21007 \<rparr>)
   \<and> Verify (example_lib ''{"status":21007}'' ''{"status":0,"environment":"Sandbox"}'') ()
        example_request
        \<lparr> client = (New False) \<lparr> SandboxURL := ''https://sandbox.itunes.apple.com/\<newline>verifyReceipt'' \<rparr>,
          result = example_target, sent = [] \<rparr>
     = (Some (url_Error ''net/url: invalid control character in URL''),
        \<lparr> client = (New False) \<lparr> SandboxURL := ''https://sandbox.itunes.apple.com/\<newline>verifyReceipt'' \<rparr>,
          result = VStruct [(''status'', VInt 21007), (''environment'', VString []),
                            (''latest_receipt'', VString [])],
          sent = [\<lparr> Method = ''POST'', URL = ''https://buy.itunes.apple.com/verifyReceipt'',
                    Header = [''Content-Type'' \<mapsto> [''application/json; charset=utf-8'']],
                    Ctx = Some (),
                    body = ''{"receipt-data":"abc123","exclude-old-transactions":false}\<newline>'' \<rparr>] \<rparr>)\<close>
  by (simp add: example_defs Verify_defs)

text \<open>
  Claim C4. A call sends at most two requests: after the request to the sandbox \<open>Verify\<close>
  sends nothing more. When two requests were sent and the second was answered, the
  outcome of the call is the outcome of decoding that answer into the target as the
  production decoding left it, whatever status the answer carries; the status of the
  sandbox answer is never looked at.
\<close>

theorem at_most_one_fallback:
  "length (sent (snd (Verify L ctx reqBody s))) \<le> length (sent s) + 2
   \<and> (\<forall>p q resp2.
         sent (snd (Verify L ctx reqBody s)) = sent s @ [p, q]
         \<and> Do L (httpCli (client s)) (sent s @ [p]) q = Inr resp2 \<longrightarrow>
         (\<exists>resp. Do L (httpCli (client s)) (sent s) p = Inr resp
            \<and> (fst (Verify L ctx reqBody s), result (snd (Verify L ctx reqBody s)))
                = Decode L (Body resp2) (snd (Unmarshal L (data (Body resp)) (result s)))))"
  by (auto simp add: Verify_defs ReadAll_def split: sum.split option.split)

theorem at_most_one_fallback_witness:
  \<open>Unmarshal_StatusResponse (example_lib ''{"status":21007}'' ''{"status":21007}'')
        ''{"status":21007}'' \<lparr> Status = 0 \<rparr> = (None, \<lparr> Status = 21007 \<rparr>)
   \<and> Do (example_lib ''{"status":21007}'' ''{"status":21007}'') (httpCli (New False))
        [\<lparr> Method = ''POST'', URL = ''https://buy.itunes.apple.com/verifyReceipt'',
           Header = [''Content-Type'' \<mapsto> [''application/json; charset=utf-8'']],
           Ctx = Some (),
           body = ''{"receipt-data":"abc123","exclude-old-transactions":false}\<newline>'' \<rparr>]
        \<lparr> Method = ''POST'', URL = ''https://sandbox.itunes.apple.com/verifyReceipt'',
          Header = [''Content-Type'' \<mapsto> [''application/json; charset=utf-8'']],
          Ctx = Some (),
          body = ''{"receipt-data":"abc123","exclude-old-transactions":false}\<newline>'' \<rparr>
     = Inr \<lparr> StatusCode = 200, Body = \<lparr> data = ''{"status":21007}'', readErr = None \<rparr> \<rparr>
   \<and> Verify (example_lib ''{"status":21007}'' ''{"status":21007}'') ()
        example_request (example_state False)
     = (None,
        \<lparr> client = New False,
          result = VStruct [(''status'', VInt 21007), (''environment'', VString []),
                            (''latest_receipt'', VString [])],
          sent = [\<lparr> Method = ''POST'', URL = ''https://buy.itunes.apple.com/verifyReceipt'',
                    Header = [''Content-Type'' \<mapsto> [''application/json; charset=utf-8'']],
                    Ctx = Some (),
                    body = ''{"receipt-data":"abc123","exclude-old-transactions":false}\<newline>'' \<rparr>,
                  \<lparr> Method = ''POST'', URL = ''https://sandbox.itunes.apple.com/verifyReceipt'',
                    Header = [''Content-Type'' \<mapsto> [''application/json; charset=utf-8'']],
                    Ctx = Some (),
                    body = ''{"receipt-data":"abc123","exclude-old-transactions":false}\<newline>'' \<rparr>] \<rparr>)
   \<and> length (sent (snd (Verify (example_lib ''{"status":21007}'' ''{"status":21007}'') ()
        example_request (example_state False)))) = 2\<close>
proof -
  let ?L = \<open>example_lib ''{"status":21007}'' ''{"status":21007}''\<close>
  let ?s = "example_state False"
  let ?p = \<open>\<lparr> Method = ''POST'', URL = ''https://buy.itunes.apple.com/verifyReceipt'',
              Header = [''Content-Type'' \<mapsto> [''application/json; charset=utf-8'']],
              Ctx = Some (),
              body = ''{"receipt-data":"abc123","exclude-old-transactions":false}\<newline>'' \<rparr>\<close>
  let ?q = \<open>\<lparr> Method = ''POST'', URL = ''https://sandbox.itunes.apple.com/verifyReceipt'',
              Header = [''Content-Type'' \<mapsto> [''application/json; charset=utf-8'']],
              Ctx = Some (),
              body = ''{"receipt-data":"abc123","exclude-old-transactions":false}\<newline>'' \<rparr>\<close>
  let ?resp2 = \<open>\<lparr> StatusCode = 200,
                  Body = \<lparr> data = ''{"status":21007}'', readErr = None \<rparr> \<rparr>\<close>
  have run: "sent (snd (Verify ?L () example_request ?s)) = sent ?s @ [?p, ?q]"
    by (simp add: example_defs Verify_defs)
  have answer: "Do ?L (httpCli (client ?s)) (sent ?s @ [?p]) ?q = Inr ?resp2"
    by (simp add: example_defs)
  from at_most_one_fallback [of ?L "()" example_request ?s] run answer
  have "\<exists>resp. Do ?L (httpCli (client ?s)) (sent ?s) ?p = Inr resp
          \<and> (fst (Verify ?L () example_request ?s), result (snd (Verify ?L () example_request ?s)))
              = Decode ?L (Body ?resp2) (snd (Unmarshal ?L (data (Body resp)) (result ?s)))"
    by blast
  then show ?thesis
    by (simp add: example_defs Verify_defs)
qed

text \<open>
  Claim C5. When the production response is read and its body decodes without error into
  the result target and into a \<open>StatusResponse\<close>, and the fallback condition
  (\<open>IsProduct = False\<close> and status 21007) does not hold, \<open>Verify\<close> returns no error, whatever
  the status; the target holds the decoded body and one request was sent.
\<close>

theorem nonzero_status_no_error:
  assumes "preq = \<lparr> Method = ''POST'', URL = ProductionURL (client s),
                  Header = [''Content-Type'' \<mapsto> [ContentType]], Ctx = Some ctx,
                  body = fst (Encode L reqBody) \<rparr>"
    and "url_Parse L (ProductionURL (client s)) = None"
    and "Do L (httpCli (client s)) (sent s) preq = Inr resp"
    and "ReadAll (Body resp) = (buf, None)"
    and "Unmarshal L buf (result s) = (None, res)"
    and "Unmarshal_StatusResponse L buf \<lparr> Status = 0 \<rparr> = (None, r)"
    and "\<not> (IsProduct (client s) = False \<and> Status r = 21007)"
  shows "Verify L ctx reqBody s = (None, s \<lparr> result := res, sent := sent s @ [preq] \<rparr>)"
  using assms by (auto simp add: Verify_defs split: sum.split option.split)

theorem nonzero_status_no_error_witness:
  \<open>Unmarshal_StatusResponse (example_lib ''{"status":21002}'' ''{"status":0,"environment":"Sandbox"}'')
        ''{"status":21002}'' \<lparr> Status = 0 \<rparr> = (None, \<lparr> Status = 21002 \<rparr>)
   \<and> HandleError 21002
       = Some (errorString ''The data in the receipt-data property was malformed or missing.'')
   \<and> Verify (example_lib ''{"status":21002}'' ''{"status":0,"environment":"Sandbox"}'') ()
        example_request (example_state False)
     = (None,
        \<lparr> client = New False,
          result = VStruct [(''status'', VInt 21002), (''environment'', VString []),
                            (''latest_receipt'', VString [])],
          sent = [\<lparr> Method = ''POST'', URL = ''https://buy.itunes.apple.com/verifyReceipt'',
                    Header = [''Content-Type'' \<mapsto> [''application/json; charset=utf-8'']],
                    Ctx = Some (),
                    body = ''{"receipt-data":"abc123","exclude-old-transactions":false}\<newline>'' \<rparr>] \<rparr>)\<close>
proof -
  let ?L = \<open>example_lib ''{"status":21002}'' ''{"status":0,"environment":"Sandbox"}''\<close>
  let ?s = "example_state False"
  have b: "url_Parse ?L (ProductionURL (client ?s)) = None"
    by (simp add: example_defs)
  have c: \<open>Do ?L (httpCli (client ?s)) (sent ?s)
             \<lparr> Method = ''POST'', URL = ProductionURL (client ?s),
               Header = [''Content-Type'' \<mapsto> [ContentType]], Ctx = Some (),
               body = fst (Encode ?L example_request) \<rparr>
           = Inr \<lparr> StatusCode = 200, Body = \<lparr> data = ''{"status":21002}'', readErr = None \<rparr> \<rparr>\<close>
    by (simp add: example_defs)
  have d: \<open>ReadAll (Body \<lparr> StatusCode = 200,
                            Body = \<lparr> data = ''{"status":21002}'', readErr = None \<rparr> \<rparr>)
           = (''{"status":21002}'', None)\<close>
    by (simp add: ReadAll_def)
  have e: \<open>Unmarshal ?L ''{"status":21002}'' (result ?s)
           = (None, VStruct [(''status'', VInt 21002), (''environment'', VString []),
                             (''latest_receipt'', VString [])])\<close>
    by (simp add: example_defs)
  have f: \<open>Unmarshal_StatusResponse ?L ''{"status":21002}'' \<lparr> Status = 0 \<rparr>
           = (None, \<lparr> Status = 21002 \<rparr>)\<close>
    by (simp add: example_defs)
  have g: "\<not> (IsProduct (client ?s) = False \<and> Status \<lparr> Status = 21002 \<rparr> = 21007)"
    by simp
  from nonzero_status_no_error [OF refl b c d e f g] f
  show ?thesis
    by (simp add: example_defs HandleError_def)
qed







subsection \<open>The result target across the fallback\<close>




end
